theory Spec2Isabelle
  imports Complex_Main
begin

section \<open>Python strings\<close>

text \<open>
  Text is a list of characters with code points below 256. The whitespace that
  \<^verbatim>\<open>str.strip()\<close> removes is the set of characters for which \<^verbatim>\<open>str.isspace()\<close> holds,
  here restricted to that range.
\<close>

definition is_space :: "char \<Rightarrow> bool" where
  "is_space c = (of_char c \<in> {9, 10, 11, 12, 13, 28, 29, 30, 31, 32, 133, 160 :: nat})"

definition strip :: "string \<Rightarrow> string" where
  "strip s = rev (dropWhile is_space (rev (dropWhile is_space s)))"

text \<open>
  \<^verbatim>\<open>str.lower()\<close> on the letters A to Z. The source compares lowered text with the words
  \<^verbatim>\<open>captcha\<close> and \<^verbatim>\<open>select\<close> only, and no other character below 256 lowers to one of
  their letters.
\<close>

definition lower_char :: "char \<Rightarrow> char" where
  "lower_char c =
     (case map_of (zip ''ABCDEFGHIJKLMNOPQRSTUVWXYZ'' ''abcdefghijklmnopqrstuvwxyz'') c of
        None \<Rightarrow> c
      | Some d \<Rightarrow> d)"

definition lower :: "string \<Rightarrow> string" where
  "lower s = map lower_char s"

text \<open>\<^verbatim>\<open>needle in s\<close>: the substring test.\<close>

fun contains :: "string \<Rightarrow> string \<Rightarrow> bool" where
  "contains needle [] = (needle = [])"
| "contains needle (c # cs) = (take (length needle) (c # cs) = needle \<or> contains needle cs)"

text \<open>\<^verbatim>\<open>s.replace(c, '')\<close> for a one-character \<open>c\<close>: every occurrence is removed.\<close>

definition remove_char :: "char \<Rightarrow> string \<Rightarrow> string" where
  "remove_char c s = filter (\<lambda>d. d \<noteq> c) s"

text \<open>\<^verbatim>\<open>s.split("?")[0]\<close>: the text before the first question mark, all of it if there is none.\<close>

definition before_query :: "string \<Rightarrow> string" where
  "before_query s = takeWhile (\<lambda>c. c \<noteq> CHR ''?'') s"

section \<open>Parsing a float\<close>

text \<open>
  \<^verbatim>\<open>float(s)\<close> on a string: surrounding whitespace is dropped, then the text is an optional
  sign followed by \<^verbatim>\<open>inf\<close>, \<^verbatim>\<open>infinity\<close> or \<^verbatim>\<open>nan\<close> in any letter case, or by a decimal number
  with an optional exponent, where single underscores may separate digits. Anything else
  raises \<^verbatim>\<open>ValueError\<close>, which is \<open>None\<close> here. \<open>Finite r\<close> carries the exact value of the
  decimal text; Python keeps the double nearest to it, and that rounding is not modelled.
\<close>

datatype pyfloat = Finite rat | Infinite bool | NaN

definition is_digit :: "char \<Rightarrow> bool" where
  "is_digit c = (c \<in> set ''0123456789'')"

definition digit_val :: "char \<Rightarrow> nat" where
  "digit_val c = of_char c - 48"

text \<open>The rest of a digit part after its first digit: digits, each after at most one underscore.\<close>

fun digits_tail :: "string \<Rightarrow> nat list \<times> string" where
  "digits_tail [] = ([], [])"
| "digits_tail [c] = (if is_digit c then ([digit_val c], []) else ([], [c]))"
| "digits_tail (c # d # r) =
     (if is_digit c then
        (case digits_tail (d # r) of (ds, r') \<Rightarrow> (digit_val c # ds, r'))
      else if c = CHR ''_'' \<and> is_digit d then
        (case digits_tail r of (ds, r') \<Rightarrow> (digit_val d # ds, r'))
      else ([], c # d # r))"

definition digitpart :: "string \<Rightarrow> (nat list \<times> string) option" where
  "digitpart s =
     (case s of
        [] \<Rightarrow> None
      | c # r \<Rightarrow>
          if is_digit c then
            (case digits_tail r of (ds, r') \<Rightarrow> Some (digit_val c # ds, r'))
          else None)"

definition digits_value :: "nat list \<Rightarrow> nat" where
  "digits_value ds = foldl (\<lambda>acc d. 10 * acc + d) 0 ds"

text \<open>The mantissa: integer digits, fraction digits and the text left over.\<close>

definition number_part :: "string \<Rightarrow> (nat list \<times> nat list \<times> string) option" where
  "number_part s =
     (case digitpart s of
        Some (ds, r) \<Rightarrow>
          (case r of
             c # r1 \<Rightarrow>
               if c = CHR ''.'' then
                 (case digitpart r1 of
                    Some (fs, r2) \<Rightarrow> Some (ds, fs, r2)
                  | None \<Rightarrow> Some (ds, [], r1))
               else Some (ds, [], r)
           | [] \<Rightarrow> Some (ds, [], []))
      | None \<Rightarrow>
          (case s of
             c # r1 \<Rightarrow>
               if c = CHR ''.'' then
                 (case digitpart r1 of
                    Some (fs, r2) \<Rightarrow> Some ([], fs, r2)
                  | None \<Rightarrow> None)
               else None
           | [] \<Rightarrow> None))"

text \<open>A leading sign: whether it is a minus, and the text after it.\<close>

definition sign_part :: "string \<Rightarrow> bool \<times> string" where
  "sign_part s =
     (case s of
        c # r \<Rightarrow>
          if c = CHR ''-'' then (True, r)
          else if c = CHR ''+'' then (False, r)
          else (False, s)
      | [] \<Rightarrow> (False, s))"

text \<open>The exponent, which must reach the end of the text; no exponent is the exponent 0.\<close>

definition exponent_part :: "string \<Rightarrow> int option" where
  "exponent_part s =
     (case s of
        [] \<Rightarrow> Some 0
      | c # r \<Rightarrow>
          if c = CHR ''e'' \<or> c = CHR ''E'' then
            (case sign_part r of
               (neg, r1) \<Rightarrow>
                 (case digitpart r1 of
                    Some (es, []) \<Rightarrow>
                      Some (if neg then - int (digits_value es) else int (digits_value es))
                  | Some (es, _ # _) \<Rightarrow> None
                  | None \<Rightarrow> None))
          else None)"

definition scale10 :: "rat \<Rightarrow> int \<Rightarrow> rat" where
  "scale10 m e = (if 0 \<le> e then m * 10 ^ nat e else m / 10 ^ nat (- e))"

definition py_float :: "string \<Rightarrow> pyfloat option" where
  "py_float s =
     (case sign_part (strip s) of
        (neg, r) \<Rightarrow>
          if lower r = ''inf'' \<or> lower r = ''infinity'' then Some (Infinite neg)
          else if lower r = ''nan'' then Some NaN
          else
            (case number_part r of
               None \<Rightarrow> None
             | Some (ds, fs, r1) \<Rightarrow>
                 (case exponent_part r1 of
                    None \<Rightarrow> None
                  | Some e \<Rightarrow>
                      let m = of_nat (digits_value ds)
                            + of_nat (digits_value fs) / 10 ^ length fs
                      in Some (Finite (scale10 (if neg then - m else m) e)))))"

section \<open>The browser, as one run observes it\<close>

text \<open>
  Every call into the browser driver either returns a value or raises; \<open>Raise m\<close> carries
  the text \<^verbatim>\<open>str(e)\<close> of the exception. Only exceptions below \<^verbatim>\<open>Exception\<close> are modelled:
  they are what the handlers of the source catch.
\<close>

datatype 'a outcome = Ok 'a | Raise string

text \<open>
  A located element: its \<^verbatim>\<open>.text\<close>, its \<^verbatim>\<open>get_attribute(name)\<close> (\<open>None\<close> is Python's
  \<^verbatim>\<open>None\<close>) and its \<^verbatim>\<open>find_elements(By.TAG_NAME, tag)\<close>.
\<close>

datatype element =
  Element (el_text: "string outcome")
          (get_attribute: "string \<Rightarrow> string option outcome")
          (find_elements_by_tag: "string \<Rightarrow> element list outcome")

text \<open>
  A gallery thumbnail: what \<^verbatim>\<open>thumb.click()\<close> does, and what
  \<^verbatim>\<open>driver.find_element(By.CSS_SELECTOR, 'div[data-testid="media-gallery"] img')\<close> gives
  once that click has settled.
\<close>

record thumbnail =
  click :: "unit outcome"
  main_img :: "element outcome"

text \<open>
  The driver of one run. \<open>wait_located sel\<close> is
  \<^verbatim>\<open>WebDriverWait(driver, t).until(EC.presence_of_element_located((By.CSS_SELECTOR, sel)))\<close>,
  which raises on timeout; the length of the timeout is not modelled. \<open>find_elements sel\<close> is
  \<^verbatim>\<open>driver.find_elements(By.CSS_SELECTOR, sel)\<close>, and \<open>find_thumbnails\<close> is that call for the
  thumbnail selector. \<open>scroll_into_view sel\<close> is the \<^verbatim>\<open>execute_script\<close> call on the element
  located by \<open>sel\<close>. A query gives the same answer throughout a run; the gallery image
  alone depends on the thumbnail clicked last.
\<close>

record driver =
  get :: "string \<Rightarrow> unit outcome"
  page_source :: "string outcome"
  wait_located :: "string \<Rightarrow> element outcome"
  scroll_into_view :: "string \<Rightarrow> unit outcome"
  find_elements :: "string \<Rightarrow> element list outcome"
  find_thumbnails :: "thumbnail list outcome"
  quit :: "unit outcome"

text \<open>
  What else a run meets: \<^verbatim>\<open>uc.Chrome(options=options, headless=False)\<close>, the
  \<^verbatim>\<open>input(...)\<close> of the CAPTCHA prompt (\<open>None\<close> when ENTER never arrives, so that the call
  never returns), the CSV append and the clock read by \<^verbatim>\<open>time.strftime\<close>.
\<close>

record run =
  chrome :: "driver outcome"
  stdin :: "unit outcome option"
  to_csv :: "unit outcome"
  clock :: nat

section \<open>Extraction helpers of \<^verbatim>\<open>scrape_and_store\<close>\<close>

definition scroll_to_element :: "driver \<Rightarrow> string \<Rightarrow> element option" where
  "scroll_to_element drv selector =
     (case wait_located drv selector of
        Raise _ \<Rightarrow> None
      | Ok elem \<Rightarrow>
          (case scroll_into_view drv selector of
             Raise _ \<Rightarrow> None
           | Ok _ \<Rightarrow> Some elem))"

text \<open>
  The body of the \<^verbatim>\<open>try\<close> in \<^verbatim>\<open>safe_find_text_by_css\<close> and in \<^verbatim>\<open>extract_price\<close>: wait for the
  element, read and strip its text. \<open>None\<close> is the \<^verbatim>\<open>continue\<close>: the wait or the read raised, or
  the stripped text is empty.
\<close>

definition selector_text :: "driver \<Rightarrow> string \<Rightarrow> string option" where
  "selector_text drv selector =
     (case wait_located drv selector of
        Raise _ \<Rightarrow> None
      | Ok elem \<Rightarrow>
          (case el_text elem of
             Raise _ \<Rightarrow> None
           | Ok t \<Rightarrow> if strip t \<noteq> [] then Some (strip t) else None))"

text \<open>The callers of the source pass a list of selectors, so the single-string case is left out.\<close>

fun safe_find_text_by_css :: "driver \<Rightarrow> string list \<Rightarrow> string" where
  "safe_find_text_by_css drv [] = ''N/A''"
| "safe_find_text_by_css drv (selector # selectors) =
     (case selector_text drv selector of
        Some t \<Rightarrow> t
      | None \<Rightarrow> safe_find_text_by_css drv selectors)"

definition title_selectors :: "string list" where
  \<open>title_selectors = [''h1.prod-ProductTitle'', ''h1[itemprop="name"]'']\<close>

text \<open>
  The inner loop of \<^verbatim>\<open>extract_colors\<close> and \<^verbatim>\<open>extract_sizes\<close>: the stripped texts that pass
  \<open>keep\<close> are added to the set. The read of \<^verbatim>\<open>.text\<close> is not guarded in the source, so an
  exception leaves the function.
\<close>

fun add_texts :: "(string \<Rightarrow> bool) \<Rightarrow> element list \<Rightarrow> string set \<Rightarrow> string set outcome" where
  "add_texts keep [] names = Ok names"
| "add_texts keep (elem # elems) names =
     (case el_text elem of
        Raise m \<Rightarrow> Raise m
      | Ok t \<Rightarrow> add_texts keep elems (if keep (strip t) then insert (strip t) names else names))"

text \<open>The loop over selector groups: the first group that adds a name ends it.\<close>

fun first_group :: "driver \<Rightarrow> (string \<Rightarrow> bool) \<Rightarrow> string list \<Rightarrow> string set outcome" where
  "first_group drv keep [] = Ok {}"
| "first_group drv keep (sel # sels) =
     (case find_elements drv sel of
        Raise m \<Rightarrow> Raise m
      | Ok elems \<Rightarrow>
          (case add_texts keep elems {} of
             Raise m \<Rightarrow> Raise m
           | Ok names \<Rightarrow> if names \<noteq> {} then Ok names else first_group drv keep sels))"

definition color_selectors :: "string list" where
  \<open>color_selectors =
     [''ul[data-tl-id*="color"] button span'',
      ''ul[data-tl-id*="color"] label span'',
      ''div[data-automation-id="color-picker"] label span'',
      ''[aria-label*="Color"]'',
      ''button[aria-checked="true"] span'',
      ''[itemprop="color"]'']\<close>

definition color_image_selector :: string where
  \<open>color_image_selector = ''img[alt*="color"], img[alt*="Color"]''\<close>

fun add_alts :: "element list \<Rightarrow> string set \<Rightarrow> string set outcome" where
  "add_alts [] names = Ok names"
| "add_alts (img # imgs) names =
     (case get_attribute img ''alt'' of
        Raise m \<Rightarrow> Raise m
      | Ok None \<Rightarrow> add_alts imgs names
      | Ok (Some alt) \<Rightarrow> add_alts imgs (if alt \<noteq> [] then insert (strip alt) names else names))"

text \<open>
  \<^verbatim>\<open>list(color_names) or ["N/A"]\<close>: the order of a list made from a set is not fixed by
  Python, so the result is kept as the set of its members.
\<close>

definition or_na :: "string set \<Rightarrow> string set" where
  "or_na names = (if names = {} then {''N/A''} else names)"

definition extract_colors :: "driver \<Rightarrow> string set outcome" where
  "extract_colors drv =
     (case first_group drv (\<lambda>name. name \<noteq> []) color_selectors of
        Raise m \<Rightarrow> Raise m
      | Ok color_names \<Rightarrow>
          if color_names = {} then
            (case find_elements drv color_image_selector of
               Raise m \<Rightarrow> Raise m
             | Ok imgs \<Rightarrow>
                 (case add_alts imgs {} of
                    Raise m \<Rightarrow> Raise m
                  | Ok names \<Rightarrow> Ok (or_na names)))
          else Ok (or_na color_names))"

definition size_selectors :: "string list" where
  \<open>size_selectors =
     [''ul[data-tl-id*="size"] button span'',
      ''ul[data-tl-id*="size"] label span'',
      ''div[data-automation-id="size-picker"] label'',
      ''[aria-label*="Size"]'',
      ''button[aria-checked="true"] span'']\<close>

definition extract_sizes :: "driver \<Rightarrow> string set outcome" where
  "extract_sizes drv =
     (case first_group drv (\<lambda>txt. txt \<noteq> [] \<and> lower txt \<noteq> ''select'') size_selectors of
        Raise m \<Rightarrow> Raise m
      | Ok size_names \<Rightarrow> Ok (or_na size_names))"

text \<open>The price is a float when the text parses and the text itself when it does not.\<close>

datatype price = Number pyfloat | Text string

definition price_selectors :: "string list" where
  \<open>price_selectors =
     [''span[itemprop="price"]'',
      ''span[data-automation-id="product-price"]'',
      ''span.price-characteristic'',
      ''div[data-testid="price"] span'']\<close>

text \<open>
  \<^verbatim>\<open>float(text.replace('$', '').replace(',', '').strip())\<close>, and \<^verbatim>\<open>text\<close> itself when that
  raises.
\<close>

definition price_of_text :: "string \<Rightarrow> price" where
  "price_of_text t =
     (case py_float (strip (remove_char CHR '','' (remove_char CHR ''$'' t))) of
        Some v \<Rightarrow> Number v
      | None \<Rightarrow> Text t)"

fun price_from :: "driver \<Rightarrow> string list \<Rightarrow> price" where
  "price_from drv [] = Number (Finite 0)"
| "price_from drv (sel # sels) =
     (case selector_text drv sel of
        Some t \<Rightarrow> price_of_text t
      | None \<Rightarrow> price_from drv sels)"

definition extract_price :: "driver \<Rightarrow> price" where
  "extract_price drv = price_from drv price_selectors"

subsection \<open>Images\<close>

text \<open>
  The body of the inner \<^verbatim>\<open>try\<close>: click the thumbnail, find the gallery image, read its
  \<^verbatim>\<open>src\<close>.
\<close>

definition read_thumbnail :: "thumbnail \<Rightarrow> string option outcome" where
  "read_thumbnail thumb =
     (case click thumb of
        Raise m \<Rightarrow> Raise m
      | Ok _ \<Rightarrow>
          (case main_img thumb of
             Raise m \<Rightarrow> Raise m
           | Ok img \<Rightarrow> get_attribute img ''src''))"

fun collect_images :: "thumbnail list \<Rightarrow> string list \<Rightarrow> string list" where
  "collect_images [] image_urls = image_urls"
| "collect_images (thumb # thumbs) image_urls =
     (case read_thumbnail thumb of
        Raise _ \<Rightarrow> collect_images thumbs image_urls
      | Ok None \<Rightarrow> collect_images thumbs image_urls
      | Ok (Some src) \<Rightarrow>
          if src \<noteq> [] \<and> src \<notin> set image_urls
          then collect_images thumbs (image_urls @ [src])
          else collect_images thumbs image_urls)"

definition gallery_selector :: string where
  \<open>gallery_selector = ''div[data-testid="media-gallery"]''\<close>

definition extract_images :: "driver \<Rightarrow> string list" where
  "extract_images drv =
     (case scroll_to_element drv gallery_selector of
        _ \<Rightarrow>
          (case find_thumbnails drv of
             Raise _ \<Rightarrow> []
           | Ok thumbs \<Rightarrow> collect_images (take 5 thumbs) []))"

subsection \<open>About this item\<close>

fun paragraph_texts :: "element list \<Rightarrow> string list outcome" where
  "paragraph_texts [] = Ok []"
| "paragraph_texts (p # ps) =
     (case el_text p of
        Raise m \<Rightarrow> Raise m
      | Ok t \<Rightarrow>
          (case paragraph_texts ps of
             Raise m \<Rightarrow> Raise m
           | Ok ts \<Rightarrow> Ok (if strip t \<noteq> [] then strip t # ts else ts)))"

definition about_selector :: string where
  "about_selector = ''div.dangerous-html.mb3''"

definition extract_about :: "driver \<Rightarrow> string list" where
  "extract_about drv =
     (case scroll_to_element drv about_selector of
        _ \<Rightarrow>
          (case wait_located drv about_selector of
             Raise _ \<Rightarrow> []
           | Ok about_elem \<Rightarrow>
               (case find_elements_by_tag about_elem ''p'' of
                  Raise _ \<Rightarrow> []
                | Ok paragraphs \<Rightarrow>
                    (case paragraph_texts paragraphs of
                       Raise _ \<Rightarrow> []
                     | Ok ts \<Rightarrow> ts))))"

subsection \<open>Related links\<close>

definition link_selector :: string where
  \<open>link_selector = ''a[href*="/ip/"]''\<close>

text \<open>
  The set comprehension over the anchors: an anchor whose \<^verbatim>\<open>href\<close> is \<^verbatim>\<open>None\<close> or empty is left
  out, the others give their \<^verbatim>\<open>href\<close> cut at the first question mark.
\<close>

fun link_targets :: "element list \<Rightarrow> string set outcome" where
  "link_targets [] = Ok {}"
| "link_targets (a # links) =
     (case get_attribute a ''href'' of
        Raise m \<Rightarrow> Raise m
      | Ok href \<Rightarrow>
          (case link_targets links of
             Raise m \<Rightarrow> Raise m
           | Ok targets \<Rightarrow>
               Ok (case href of
                     None \<Rightarrow> targets
                   | Some h \<Rightarrow> if h \<noteq> [] then insert (before_query h) targets else targets)))"

text \<open>
  \<^verbatim>\<open>list({...})\<close>: as for the colours, the result is kept as the set of its members.
\<close>

definition extract_related_links :: "driver \<Rightarrow> string set" where
  "extract_related_links drv =
     (case find_elements drv link_selector of
        Raise _ \<Rightarrow> {}
      | Ok links \<Rightarrow>
          (case link_targets links of
             Raise _ \<Rightarrow> {}
           | Ok targets \<Rightarrow> targets))"

section \<open>The datastore\<close>

text \<open>
  A task document. \<open>t_id\<close> is the \<^verbatim>\<open>_id\<close> that the datastore generates; the worker receives it
  as text and turns it back with \<^verbatim>\<open>ObjectId\<close>, which is the identity on generated ids.
  \<open>created_at\<close> is a time stamp. \<open>error\<close> is absent until the worker writes it.
\<close>

record task =
  t_id :: nat
  t_client_name :: string
  t_category :: string
  t_url :: string
  status :: string
  created_at :: nat
  error :: "string option"

text \<open>The product dictionary of \<^verbatim>\<open>scrape_and_store\<close>, with its keys.\<close>

record product =
  client_name :: string
  category :: string
  task_id :: nat
  title :: string
  price :: price
  images :: "string list"
  about_this_item :: "string list"
  colors :: "string set"
  sizes :: "string set"
  product_url :: string
  related_links :: "string set"
  scraped_at :: nat

datatype csv_line = Header | Row product

text \<open>
  What the worker and the endpoints act on, in the order they act on it.
  \<open>Status_written i s\<close> is a write of the status \<open>s\<close> to the task \<open>i\<close>,
  \<open>Product_inserted i\<close> the insertion of the product of the task \<open>i\<close>.
\<close>

datatype event =
  Status_written nat string
| Session_started
| Session_quit
| Product_inserted nat
| Csv_appended

text \<open>
  The collections \<^verbatim>\<open>task_col\<close> and \<^verbatim>\<open>product_col\<close>, the file \<^verbatim>\<open>walmart_data.csv\<close> (\<open>None\<close>
  while it does not exist) and the journal of the effects so far. The datastore itself does
  not fail.
\<close>

record world =
  tasks :: "task list"
  products :: "product list"
  csv :: "csv_line list option"
  journal :: "event list"

definition log_event :: "event \<Rightarrow> world \<Rightarrow> world" where
  "log_event e w = w\<lparr>journal := journal w @ [e]\<rparr>"

text \<open>An id that no stored task has.\<close>

definition fresh_id :: "task list \<Rightarrow> nat" where
  "fresh_id ts = (if ts = [] then 0 else Suc (fold max (map t_id ts) 0))"

text \<open>\<^verbatim>\<open>update_one({"_id": i}, {"$set": ...})\<close>: the first document with that id is changed.\<close>

fun update_one :: "nat \<Rightarrow> (task \<Rightarrow> task) \<Rightarrow> task list \<Rightarrow> task list" where
  "update_one i f [] = []"
| "update_one i f (t # ts) = (if t_id t = i then f t # ts else t # update_one i f ts)"

definition set_completed :: "nat \<Rightarrow> world \<Rightarrow> world" where
  "set_completed i w =
     log_event (Status_written i ''completed'')
       (w\<lparr>tasks := update_one i (\<lambda>t. t\<lparr>status := ''completed''\<rparr>) (tasks w)\<rparr>)"

definition set_failed :: "nat \<Rightarrow> string \<Rightarrow> world \<Rightarrow> world" where
  "set_failed i m w =
     log_event (Status_written i ''failed'')
       (w\<lparr>tasks := update_one i (\<lambda>t. t\<lparr>status := ''failed'', error := Some m\<rparr>) (tasks w)\<rparr>)"

definition insert_product :: "product \<Rightarrow> world \<Rightarrow> world" where
  "insert_product p w =
     log_event (Product_inserted (task_id p)) (w\<lparr>products := products w @ [p]\<rparr>)"

text \<open>
  The CSV append: the header goes first when the file is not there yet. An append that
  raises is caught by the source and leaves the file as it was.
\<close>

definition append_csv :: "unit outcome \<Rightarrow> product \<Rightarrow> world \<Rightarrow> world" where
  "append_csv written p w =
     (case written of
        Raise _ \<Rightarrow> w
      | Ok _ \<Rightarrow>
          log_event Csv_appended
            (w\<lparr>csv := (case csv w of
                         None \<Rightarrow> Some [Header, Row p]
                       | Some ls \<Rightarrow> Some (ls @ [Row p]))\<rparr>))"

section \<open>\<^verbatim>\<open>submit_task\<close>\<close>

text \<open>
  The task is inserted with the status \<^verbatim>\<open>pending\<close>; the job handed to the queue carries the
  url, the category, the client name and the new id, which are the arguments of
  \<open>scrape_and_store\<close>. \<open>now\<close> is \<^verbatim>\<open>datetime.now()\<close>.
\<close>

definition submit_task :: "string \<Rightarrow> string \<Rightarrow> string \<Rightarrow> nat \<Rightarrow> world \<Rightarrow> nat \<times> world" where
  "submit_task cname cat url now w =
     (let i = fresh_id (tasks w);
          task_data = \<lparr>t_id = i, t_client_name = cname, t_category = cat, t_url = url,
                       status = ''pending'', created_at = now, error = None\<rparr>
      in (i, log_event (Status_written i ''pending'') (w\<lparr>tasks := tasks w @ [task_data]\<rparr>)))"

section \<open>\<^verbatim>\<open>scrape_and_store\<close>\<close>

text \<open>
  The product dictionary as the source fills it: title, price, colours and sizes when the
  dictionary is built, then images, the about texts and the related links. The colours and
  the sizes are the two steps that can raise.
\<close>

definition extract_product :: "driver \<Rightarrow> string \<Rightarrow> string \<Rightarrow> string \<Rightarrow> nat \<Rightarrow> nat \<Rightarrow> product outcome" where
  "extract_product drv url cat cname i now =
     (let title_text = safe_find_text_by_css drv title_selectors;
          price_value = extract_price drv
      in case extract_colors drv of
           Raise m \<Rightarrow> Raise m
         | Ok color_names \<Rightarrow>
             (case extract_sizes drv of
                Raise m \<Rightarrow> Raise m
              | Ok size_names \<Rightarrow>
                  Ok \<lparr>client_name = cname, category = cat, task_id = i, title = title_text,
                      price = price_value, images = extract_images drv,
                      about_this_item = extract_about drv, colors = color_names,
                      sizes = size_names, product_url = url,
                      related_links = extract_related_links drv, scraped_at = now\<rparr>))"

text \<open>
  The CAPTCHA check: the prompt is read only when the lowered page source contains the word.
\<close>

definition captcha_prompt :: "run \<Rightarrow> string \<Rightarrow> unit outcome option" where
  "captcha_prompt r src = (if contains ''captcha'' (lower src) then stdin r else Some (Ok ()))"

text \<open>
  The \<^verbatim>\<open>try\<close> block of the worker. \<open>None\<close>: the block never ends, the prompt waiting for an
  ENTER that does not come. \<open>Some (Raise m, w)\<close>: an exception with text \<open>m\<close> left the block
  in the world \<open>w\<close>. \<open>Some (Ok (), w)\<close>: the block ran to its end.
\<close>

definition scrape_body ::
  "run \<Rightarrow> string \<Rightarrow> string \<Rightarrow> string \<Rightarrow> nat \<Rightarrow> world \<Rightarrow> (unit outcome \<times> world) option" where
  "scrape_body r url cat cname i w =
     (case chrome r of
        Raise m \<Rightarrow> Some (Raise m, w)
      | Ok drv \<Rightarrow>
          let w1 = log_event Session_started w in
          (case get drv url of
             Raise m \<Rightarrow> Some (Raise m, w1)
           | Ok _ \<Rightarrow>
               (case page_source drv of
                  Raise m \<Rightarrow> Some (Raise m, w1)
                | Ok src \<Rightarrow>
                    (case captcha_prompt r src of
                       None \<Rightarrow> None
                     | Some (Raise m) \<Rightarrow> Some (Raise m, w1)
                     | Some (Ok _) \<Rightarrow>
                         (case extract_product drv url cat cname i (clock r) of
                            Raise m \<Rightarrow> Some (Raise m, w1)
                          | Ok p \<Rightarrow>
                              let w2 = insert_product p w1;
                                  w3 = append_csv (to_csv r) p w2
                              in (case quit drv of
                                    Raise m \<Rightarrow> Some (Raise m, w3)
                                  | Ok _ \<Rightarrow>
                                      Some (Ok (), set_completed i (log_event Session_quit w3))))))))"

text \<open>
  The worker: the \<^verbatim>\<open>try\<close> block and its \<^verbatim>\<open>except Exception as e\<close>, which writes the status
  \<^verbatim>\<open>failed\<close> and \<^verbatim>\<open>str(e)\<close>. \<open>None\<close>: the worker never returns.
\<close>

definition scrape_and_store :: "run \<Rightarrow> string \<Rightarrow> string \<Rightarrow> string \<Rightarrow> nat \<Rightarrow> world \<Rightarrow> world option" where
  "scrape_and_store r url cat cname i w =
     (case scrape_body r url cat cname i w of
        None \<Rightarrow> None
      | Some (Ok _, w') \<Rightarrow> Some w'
      | Some (Raise m, w') \<Rightarrow> Some (set_failed i m w'))"

section \<open>The listing endpoints\<close>

text \<open>
  A query is a list of conditions, all of which a document must meet. \<open>Equals k v\<close> is the
  entry \<^verbatim>\<open>{k: v}\<close>; \<open>Price_range lo hi\<close> is \<^verbatim>\<open>{"price": {"$gte": lo, "$lte": hi}}\<close>, each bound
  present or not.
\<close>

datatype condition = Equals string string | Price_range "rat option" "rat option"

text \<open>\<^verbatim>\<open>if v: query[k] = v\<close>: neither \<^verbatim>\<open>None\<close> nor the empty string adds the entry.\<close>

definition text_condition :: "string \<Rightarrow> string option \<Rightarrow> condition list" where
  "text_condition k v =
     (case v of
        None \<Rightarrow> []
      | Some s \<Rightarrow> if s \<noteq> [] then [Equals k s] else [])"

definition price_condition :: "rat option \<Rightarrow> rat option \<Rightarrow> condition list" where
  "price_condition min_price max_price =
     (if min_price \<noteq> None \<or> max_price \<noteq> None then [Price_range min_price max_price] else [])"

definition task_field :: "task \<Rightarrow> string \<Rightarrow> string option" where
  "task_field t k =
     (if k = ''client_name'' then Some (t_client_name t)
      else if k = ''status'' then Some (status t)
      else if k = ''category'' then Some (t_category t)
      else if k = ''url'' then Some (t_url t)
      else if k = ''error'' then error t
      else None)"

definition product_field :: "product \<Rightarrow> string \<Rightarrow> string option" where
  "product_field p k =
     (if k = ''client_name'' then Some (client_name p)
      else if k = ''category'' then Some (category p)
      else if k = ''title'' then Some (title p)
      else if k = ''product_url'' then Some (product_url p)
      else None)"

text \<open>
  How the datastore compares a stored price with the bounds: a number is compared by value,
  an infinite one lies beyond every bound on its side, and neither a NaN nor a text is in
  any range.
\<close>

definition price_in_range :: "price \<Rightarrow> rat option \<Rightarrow> rat option \<Rightarrow> bool" where
  "price_in_range v lo hi =
     (case v of
        Number (Finite x) \<Rightarrow>
          (case lo of None \<Rightarrow> True | Some l \<Rightarrow> l \<le> x) \<and>
          (case hi of None \<Rightarrow> True | Some h \<Rightarrow> x \<le> h)
      | Number (Infinite neg) \<Rightarrow> (if neg then lo = None else hi = None)
      | Number NaN \<Rightarrow> False
      | Text _ \<Rightarrow> False)"

fun task_meets :: "task \<Rightarrow> condition \<Rightarrow> bool" where
  "task_meets t (Equals k v) = (task_field t k = Some v)"
| "task_meets t (Price_range lo hi) = False"

fun product_meets :: "product \<Rightarrow> condition \<Rightarrow> bool" where
  "product_meets p (Equals k v) = (product_field p k = Some v)"
| "product_meets p (Price_range lo hi) = price_in_range (price p) lo hi"

text \<open>\<^verbatim>\<open>col.find(query).sort(key, -1)\<close>: the matching documents, the newest first.\<close>

definition find_tasks :: "condition list \<Rightarrow> task list \<Rightarrow> task list" where
  "find_tasks query ts = rev (sort_key created_at (filter (\<lambda>t. list_all (task_meets t) query) ts))"

definition find_products :: "condition list \<Rightarrow> product list \<Rightarrow> product list" where
  "find_products query ps =
     rev (sort_key scraped_at (filter (\<lambda>p. list_all (product_meets p) query) ps))"

definition list_tasks :: "string option \<Rightarrow> string option \<Rightarrow> string option \<Rightarrow> world \<Rightarrow> task list" where
  "list_tasks cname st cat w =
     find_tasks (text_condition ''client_name'' cname @ text_condition ''status'' st
                 @ text_condition ''category'' cat) (tasks w)"

definition list_products ::
  "string option \<Rightarrow> string option \<Rightarrow> rat option \<Rightarrow> rat option \<Rightarrow> world \<Rightarrow> product list" where
  "list_products cname cat min_price max_price w =
     find_products (text_condition ''client_name'' cname @ text_condition ''category'' cat
                    @ price_condition min_price max_price) (products w)"

section \<open>Reading the world\<close>

text \<open>\<^verbatim>\<open>task_col.find_one({"_id": i})\<close> and the products stored for a task.\<close>

definition task_of :: "nat \<Rightarrow> world \<Rightarrow> task option" where
  "task_of i w = find (\<lambda>t. t_id t = i) (tasks w)"

definition products_of :: "nat \<Rightarrow> world \<Rightarrow> product list" where
  "products_of i w = filter (\<lambda>p. task_id p = i) (products w)"

text \<open>The statuses written to a task, in the order of the writes.\<close>

fun status_history :: "nat \<Rightarrow> event list \<Rightarrow> string list" where
  "status_history i [] = []"
| "status_history i (Status_written j s # es) =
     (if j = i then s # status_history i es else status_history i es)"
| "status_history i (_ # es) = status_history i es"

text \<open>
  A submission followed by the run of its job: the statuses written to the new task from the
  submission on, \<open>None\<close> when the worker does not return.
\<close>

definition lifecycle ::
  "run \<Rightarrow> string \<Rightarrow> string \<Rightarrow> string \<Rightarrow> nat \<Rightarrow> world \<Rightarrow> string list option" where
  "lifecycle r cname cat url now w =
     (case submit_task cname cat url now w of
        (i, w1) \<Rightarrow>
          (case scrape_and_store r url cat cname i w1 of
             None \<Rightarrow> None
           | Some w2 \<Rightarrow> Some (status_history i (drop (length (journal w)) (journal w2)))))"

text \<open>
  The state machine in the words of the specification: pending, then running, then one of
  the two terminal statuses.
\<close>

definition spec_lifecycle :: "string list \<Rightarrow> bool" where
  "spec_lifecycle h =
     (h = [''pending'', ''running'', ''completed''] \<or> h = [''pending'', ''running'', ''failed''])"

text \<open>
  Whether a journal holds a write of a terminal status made while a browser session was
  open; the flag says whether one is open before the first event.
\<close>

fun terminal_write_while_open :: "bool \<Rightarrow> event list \<Rightarrow> bool" where
  "terminal_write_while_open opn [] = False"
| "terminal_write_while_open opn (Session_started # es) = terminal_write_while_open True es"
| "terminal_write_while_open opn (Session_quit # es) = terminal_write_while_open False es"
| "terminal_write_while_open opn (Status_written i s # es) =
     ((opn \<and> (s = ''completed'' \<or> s = ''failed'')) \<or> terminal_write_while_open opn es)"
| "terminal_write_while_open opn (_ # es) = terminal_write_while_open opn es"

text \<open>The run in which the worker never returns: the CAPTCHA prompt is shown and never answered.\<close>

definition prompt_never_answered :: "run \<Rightarrow> string \<Rightarrow> bool" where
  "prompt_never_answered r url =
     (case chrome r of
        Raise _ \<Rightarrow> False
      | Ok drv \<Rightarrow>
          (case get drv url of
             Raise _ \<Rightarrow> False
           | Ok _ \<Rightarrow>
               (case page_source drv of
                  Raise _ \<Rightarrow> False
                | Ok src \<Rightarrow> captcha_prompt r src = None)))"

text \<open>
  The URLs that the image loop reads, one thumbnail after the other: a thumbnail whose click
  or read raises, or whose \<^verbatim>\<open>src\<close> is \<^verbatim>\<open>None\<close> or empty, gives none.
\<close>

definition urls_read :: "thumbnail list \<Rightarrow> string list" where
  "urls_read thumbs =
     concat (map (\<lambda>t. case read_thumbnail t of
                         Ok (Some src) \<Rightarrow> if src \<noteq> [] then [src] else []
                       | Ok None \<Rightarrow> []
                       | Raise _ \<Rightarrow> []) thumbs)"

section \<open>A product page and its runs\<close>

definition text_element :: "string \<Rightarrow> element" where
  "text_element t = Element (Ok t) (\<lambda>_. Ok None) (\<lambda>_. Ok [])"

definition attr_element :: "string \<Rightarrow> string \<Rightarrow> element" where
  "attr_element name v =
     Element (Ok []) (\<lambda>a. if a = name then Ok (Some v) else Ok None) (\<lambda>_. Ok [])"

definition shows_image :: "string \<Rightarrow> thumbnail" where
  "shows_image src = \<lparr>click = Ok (), main_img = Ok (attr_element ''src'' src)\<rparr>"

definition stuck_thumbnail :: thumbnail where
  "stuck_thumbnail =
     \<lparr>click = Raise ''element click intercepted'', main_img = Raise ''no such element''\<rparr>"

text \<open>
  A page whose title is under the second title selector only, whose price is under the
  first price selector, with four thumbnails (one shown twice, one that cannot be clicked)
  and two links to the same product.
\<close>

definition kettle_thumbs :: "thumbnail list" where
  "kettle_thumbs =
     [shows_image ''https://i5.walmartimages.com/a.jpg'',
      stuck_thumbnail,
      shows_image ''https://i5.walmartimages.com/a.jpg'',
      shows_image ''https://i5.walmartimages.com/b.jpg'']"

definition kettle_anchors :: "element list" where
  "kettle_anchors =
     [attr_element ''href'' ''https://www.walmart.com/ip/123?tid=5'',
      attr_element ''href'' ''https://www.walmart.com/ip/123?tid=9'']"

definition kettle_source :: string where
  "kettle_source = ''<html><body><h1>Blue Kettle</h1></body></html>''"

definition kettle_page :: driver where
  \<open>kettle_page =
     \<lparr>get = (\<lambda>_. Ok ()),
      page_source = Ok kettle_source,
      wait_located = (\<lambda>sel.
        if sel = ''h1[itemprop="name"]'' then Ok (text_element '' Blue Kettle '')
        else if sel = ''span[itemprop="price"]'' then Ok (text_element ''$1,234.50'')
        else Raise ''Message: ''),
      scroll_into_view = (\<lambda>_. Ok ()),
      find_elements = (\<lambda>sel.
        if sel = ''a[href*="/ip/"]'' then Ok kettle_anchors else Ok []),
      find_thumbnails = Ok kettle_thumbs,
      quit = Ok ()\<rparr>\<close>

definition kettle_url :: string where
  "kettle_url = ''https://www.walmart.com/ip/456''"

definition kettle_run :: run where
  "kettle_run = \<lparr>chrome = Ok kettle_page, stdin = None, to_csv = Ok (), clock = 20\<rparr>"

definition kettle_product :: product where
  "kettle_product =
     \<lparr>client_name = ''acme'', category = ''kitchen'', task_id = 0, title = ''Blue Kettle'',
      price = Number (Finite (2469 / 2)),
      images = [''https://i5.walmartimages.com/a.jpg'', ''https://i5.walmartimages.com/b.jpg''],
      about_this_item = [], colors = {''N/A''}, sizes = {''N/A''},
      product_url = kettle_url,
      related_links = {''https://www.walmart.com/ip/123''}, scraped_at = 20\<rparr>"

text \<open>The same page with a price that is not a number.\<close>

definition contact_page :: driver where
  \<open>contact_page =
     kettle_page\<lparr>wait_located := (\<lambda>sel.
        if sel = ''span[itemprop="price"]'' then Ok (text_element '' Contact for price '')
        else wait_located kettle_page sel)\<rparr>\<close>

definition contact_run :: run where
  "contact_run = kettle_run\<lparr>chrome := Ok contact_page\<rparr>"

text \<open>A run in which the navigation raises, and one in which closing the browser does.\<close>

definition unreachable_run :: run where
  "unreachable_run =
     kettle_run\<lparr>chrome := Ok (kettle_page\<lparr>get := (\<lambda>_. Raise ''net::ERR_NAME_NOT_RESOLVED'')\<rparr>)\<rparr>"

definition quit_fails_run :: run where
  "quit_fails_run =
     kettle_run\<lparr>chrome := Ok (kettle_page\<lparr>quit := Raise ''chrome not reachable''\<rparr>)\<rparr>"

definition empty_world :: world where
  "empty_world = \<lparr>tasks = [], products = [], csv = None, journal = []\<rparr>"

text \<open>The world after the submission of the kettle task to the empty world.\<close>

definition submitted_world :: world where
  "submitted_world = snd (submit_task ''acme'' ''kitchen'' kettle_url 10 empty_world)"

text \<open>Two tasks, the first of a client with an empty name.\<close>

definition two_tasks :: world where
  "two_tasks =
     snd (submit_task ''acme'' ''kitchen'' kettle_url 11
       (snd (submit_task [] ''toys'' kettle_url 10 empty_world)))"

text \<open>
  The world of a run that reached the end of its \<^verbatim>\<open>try\<close> block, before the status is written:
  the session was started, the product inserted, the CSV append tried and the session quit.
\<close>

definition stored :: "run \<Rightarrow> product \<Rightarrow> world \<Rightarrow> world" where
  "stored r p w =
     log_event Session_quit (append_csv (to_csv r) p (insert_product p (log_event Session_started w)))"

section \<open>Facts about text\<close>

lemma strip_example: "strip ''  ab c  '' = ''ab c''"
  by (simp add: strip_def is_space_def)

lemma py_float_examples:
  "py_float ''1234.50'' = Some (Finite (2469 / 2))"
  "py_float ''Contact for price'' = None"
  "py_float ''1_000'' = Some (Finite 1000)"
  "py_float ''1__0'' = None"
  "py_float ''.5e1'' = Some (Finite 5)"
  "py_float ''-Inf'' = Some (Infinite True)"
  "py_float ''1.'' = Some (Finite 1)"
  "py_float ''.'' = None"
  "py_float ''1e'' = None"
  "py_float '''' = None"
  "py_float ''12 3'' = None"
  by (simp_all add: py_float_def sign_part_def strip_def is_space_def lower_def lower_char_def
      number_part_def digitpart_def is_digit_def digit_val_def digits_value_def
      exponent_part_def scale10_def)

lemma price_text_examples:
  "price_of_text ''$1,234.50'' = Number (Finite (2469 / 2))"
  "price_of_text ''Contact for price'' = Text ''Contact for price''"
  by (simp_all add: price_of_text_def remove_char_def py_float_def sign_part_def strip_def
      is_space_def lower_def lower_char_def number_part_def digitpart_def is_digit_def
      digit_val_def digits_value_def exponent_part_def scale10_def)

lemma before_query_cut:
  "CHR ''?'' \<notin> set u \<Longrightarrow> before_query (u @ CHR ''?'' # q) = u"
  "CHR ''?'' \<notin> set u \<Longrightarrow> before_query u = u"
  by (induction u) (auto simp: before_query_def)

section \<open>Facts about the fallback chains\<close>


lemma price_from_skip:
  "\<forall>s \<in> set pre. selector_text drv s = None \<Longrightarrow>
   price_from drv (pre @ rest) = price_from drv rest"
  by (induction pre) simp_all


section \<open>Facts about the image loop\<close>

lemma remdups_drop_dup: "x \<in> set bs \<Longrightarrow> remdups (as @ x # bs) = remdups (as @ bs)"
  by (induction as) auto

lemma collect_images_eq:
  "distinct acc \<Longrightarrow> collect_images thumbs acc = rev (remdups (rev (acc @ urls_read thumbs)))"
proof (induction thumbs arbitrary: acc)
  case Nil
  then show ?case by (simp add: urls_read_def distinct_remdups_id)
next
  case (Cons t thumbs)
  then show ?case
    by (auto simp: urls_read_def remdups_drop_dup split: outcome.splits option.splits)
qed

lemma urls_read_length: "length (urls_read thumbs) \<le> length thumbs"
  by (induction thumbs) (auto simp: urls_read_def split: outcome.splits option.splits)

lemma length_first_occurrences: "length (rev (remdups (rev xs))) \<le> length xs"
  by (simp add: length_remdups_leq [of "rev xs", simplified])

lemma collect_images_skip:
  "read_thumbnail bad = Raise m \<Longrightarrow>
   collect_images (pre @ bad # post) urls = collect_images (pre @ post) urls"
  by (induction pre arbitrary: urls) (auto split: outcome.splits option.splits)

lemma read_thumbnail_raises:
  "click t = Raise m \<Longrightarrow> read_thumbnail t = Raise m"
  "click t = Ok u \<Longrightarrow> main_img t = Raise m \<Longrightarrow> read_thumbnail t = Raise m"
  "click t = Ok u \<Longrightarrow> main_img t = Ok img \<Longrightarrow> get_attribute img ''src'' = Raise m \<Longrightarrow>
     read_thumbnail t = Raise m"
  by (simp_all add: read_thumbnail_def)

section \<open>Facts about the related links\<close>

lemma link_targets_eq:
  "\<forall>a \<in> set links. \<exists>h. get_attribute a ''href'' = Ok h \<Longrightarrow>
   link_targets links =
     Ok (before_query ` {h. h \<noteq> [] \<and> (\<exists>a \<in> set links. get_attribute a ''href'' = Ok (Some h))})"
proof (induction links)
  case Nil
  then show ?case by simp
next
  case (Cons a links)
  then obtain h where h: "get_attribute a ''href'' = Ok h" by auto
  from Cons have ih: "link_targets links =
     Ok (before_query ` {h. h \<noteq> [] \<and> (\<exists>a \<in> set links. get_attribute a ''href'' = Ok (Some h))})"
    by simp
  show ?case
    using h ih by (cases h) auto
qed

lemma link_targets_Raise:
  "a \<in> set links \<Longrightarrow> get_attribute a ''href'' = Raise m \<Longrightarrow> \<exists>m'. link_targets links = Raise m'"
  by (induction links) (auto split: outcome.splits)

section \<open>Facts about the datastore\<close>

lemma find_update_one:
  "(\<And>t. t_id (f t) = t_id t) \<Longrightarrow>
   find (\<lambda>t. t_id t = i) (update_one i f ts) = map_option f (find (\<lambda>t. t_id t = i) ts)"
  by (induction ts) auto

lemma task_of_set_completed:
  "task_of i (set_completed i w) = map_option (\<lambda>t. t\<lparr>status := ''completed''\<rparr>) (task_of i w)"
  by (simp add: task_of_def set_completed_def log_event_def find_update_one)

lemma task_of_set_failed:
  "task_of i (set_failed i m w) =
   map_option (\<lambda>t. t\<lparr>status := ''failed'', error := Some m\<rparr>) (task_of i w)"
  by (simp add: task_of_def set_failed_def log_event_def find_update_one)

lemma tasks_append_csv: "tasks (append_csv c p w) = tasks w"
  by (simp add: append_csv_def log_event_def split: outcome.splits)

lemma tasks_insert_product: "tasks (insert_product p w) = tasks w"
  by (simp add: insert_product_def log_event_def)

lemma tasks_log_event: "tasks (log_event e w) = tasks w"
  by (simp add: log_event_def)

lemma task_of_cong: "tasks w' = tasks w \<Longrightarrow> task_of i w' = task_of i w"
  by (simp add: task_of_def)

lemma products_append_csv: "products (append_csv c p w) = products w"
  by (simp add: append_csv_def log_event_def split: outcome.splits)

lemma products_set_completed: "products (set_completed i w) = products w"
  by (simp add: set_completed_def log_event_def)

lemma status_history_append:
  "status_history i (xs @ ys) = status_history i xs @ status_history i ys"
  by (induction i xs rule: status_history.induct) simp_all

lemma journal_append_csv:
  "\<exists>es. journal (append_csv c p w) = journal w @ es \<and> status_history i es = []"
  by (cases c) (simp_all add: append_csv_def log_event_def)

section \<open>Facts about the worker\<close>

lemma extract_product_price:
  "extract_product drv url cat cname i now = Ok p \<Longrightarrow> price p = extract_price drv"
  by (auto simp: extract_product_def Let_def split: outcome.splits)

lemma extract_product_images:
  "extract_product drv url cat cname i now = Ok p \<Longrightarrow> images p = extract_images drv"
  by (auto simp: extract_product_def Let_def split: outcome.splits)

lemma extract_product_Ok:
  "extract_colors drv = Ok cs \<Longrightarrow> extract_sizes drv = Ok ss \<Longrightarrow>
   \<exists>p. extract_product drv url cat cname i now = Ok p"
  by (simp add: extract_product_def Let_def)

lemma stored_tasks: "tasks (stored r p w) = tasks w"
  by (simp add: stored_def tasks_log_event tasks_append_csv tasks_insert_product)

lemma stored_products: "products (stored r p w) = products w @ [p]"
  by (simp add: stored_def products_append_csv insert_product_def log_event_def)

lemma stored_journal:
  "\<exists>es. journal (stored r p w) = journal w @ es \<and> status_history i es = []"
proof -
  obtain es where es: "journal (append_csv (to_csv r) p (insert_product p (log_event Session_started w)))
      = journal (insert_product p (log_event Session_started w)) @ es" "status_history i es = []"
    using journal_append_csv by blast
  then have "journal (stored r p w) = journal w @ (Session_started # Product_inserted (task_id p) # es @ [Session_quit])"
    by (simp add: stored_def log_event_def insert_product_def)
  moreover have "status_history i (Session_started # Product_inserted (task_id p) # es @ [Session_quit]) = []"
    using es(2) by (simp add: status_history_append)
  ultimately show ?thesis by blast
qed

lemma scrape_and_store_cases:
  "scrape_and_store r url cat cname i w =
     (case scrape_body r url cat cname i w of
        None \<Rightarrow> None
      | Some (Ok _, w') \<Rightarrow> Some w'
      | Some (Raise m, w') \<Rightarrow> Some (set_failed i m w'))"
  by (simp add: scrape_and_store_def)

lemma scrape_body_shape:
  "scrape_body r url cat cname i w = None
   \<or> (\<exists>m. scrape_body r url cat cname i w = Some (Raise m, w))
   \<or> (\<exists>m. scrape_body r url cat cname i w = Some (Raise m, log_event Session_started w))
   \<or> (\<exists>m p. scrape_body r url cat cname i w
          = Some (Raise m, append_csv (to_csv r) p (insert_product p (log_event Session_started w))))
   \<or> (\<exists>p. scrape_body r url cat cname i w = Some (Ok (), set_completed i (stored r p w)))"
  by (auto simp: scrape_body_def Let_def stored_def split: outcome.splits option.splits)

lemma scrape_body_None:
  "scrape_body r url cat cname i w = None \<longleftrightarrow> prompt_never_answered r url"
  by (auto simp: scrape_body_def prompt_never_answered_def Let_def
      split: outcome.splits option.splits)

lemma scrape_and_store_None:
  "scrape_and_store r url cat cname i w = None \<longleftrightarrow> prompt_never_answered r url"
  using scrape_body_None [of r url cat cname i w]
  by (auto simp: scrape_and_store_cases split: option.splits outcome.splits prod.splits)

lemma scrape_body_Raise_tasks:
  "scrape_body r url cat cname i w = Some (Raise m, w') \<Longrightarrow> tasks w' = tasks w"
  by (auto simp: scrape_body_def Let_def tasks_append_csv tasks_insert_product tasks_log_event
      split: outcome.splits option.splits)

lemma scrape_body_Ok_task:
  "scrape_body r url cat cname i w = Some (Ok u, w') \<Longrightarrow>
   task_of i w' = map_option (\<lambda>t. t\<lparr>status := ''completed''\<rparr>) (task_of i w)"
  by (auto simp: scrape_body_def Let_def task_of_set_completed
      tasks_append_csv tasks_insert_product tasks_log_event
      cong: task_of_cong split: outcome.splits option.splits)

lemma scrape_and_store_completes:
  assumes "chrome r = Ok drv" "get drv url = Ok ()" "page_source drv = Ok src"
    "captcha_prompt r src = Some (Ok ())" "extract_product drv url cat cname i (clock r) = Ok p"
    "quit drv = Ok ()"
  shows "scrape_and_store r url cat cname i w = Some (set_completed i (stored r p w))"
  using assms by (simp add: scrape_and_store_def scrape_body_def Let_def stored_def)

lemma worker_journal:
  assumes "scrape_and_store r url cat cname i w = Some w'"
  shows "\<exists>es. journal w' = journal w @ es
           \<and> (status_history i es = [''completed''] \<or> status_history i es = [''failed''])"
proof -
  consider m where "scrape_body r url cat cname i w = Some (Raise m, w)"
    | m where "scrape_body r url cat cname i w = Some (Raise m, log_event Session_started w)"
    | m p where "scrape_body r url cat cname i w
          = Some (Raise m, append_csv (to_csv r) p (insert_product p (log_event Session_started w)))"
    | p where "scrape_body r url cat cname i w = Some (Ok (), set_completed i (stored r p w))"
    using scrape_body_shape [of r url cat cname i w] assms
    by (auto simp: scrape_and_store_cases)
  then show ?thesis
  proof cases
    case 1
    with assms have "journal w' = journal w @ [Status_written i ''failed'']"
      by (auto simp: scrape_and_store_cases set_failed_def log_event_def)
    then show ?thesis by simp
  next
    case 2
    with assms have "journal w' = journal w @ [Session_started, Status_written i ''failed'']"
      by (auto simp: scrape_and_store_cases set_failed_def log_event_def)
    then show ?thesis by simp
  next
    case 3
    obtain es where es: "journal (append_csv (to_csv r) p (insert_product p (log_event Session_started w)))
      = journal (insert_product p (log_event Session_started w)) @ es" "status_history i es = []"
      using journal_append_csv by blast
    with 3 assms have "journal w' = journal w @
        (Session_started # Product_inserted (task_id p) # es @ [Status_written i ''failed''])"
      by (auto simp: scrape_and_store_cases set_failed_def log_event_def insert_product_def)
    moreover have "status_history i
        (Session_started # Product_inserted (task_id p) # es @ [Status_written i ''failed'']) = [''failed'']"
      using es(2) by (simp add: status_history_append)
    ultimately show ?thesis by blast
  next
    case 4
    obtain es where es: "journal (stored r p w) = journal w @ es" "status_history i es = []"
      using stored_journal by blast
    with 4 assms have "journal w' = journal w @ (es @ [Status_written i ''completed''])"
      by (auto simp: scrape_and_store_cases set_completed_def log_event_def)
    moreover have "status_history i (es @ [Status_written i ''completed'']) = [''completed'']"
      using es(2) by (simp add: status_history_append)
    ultimately show ?thesis by blast
  qed
qed

lemma tasks_after_run:
  "map_option tasks (scrape_and_store r url cat cname i w) =
     (case scrape_body r url cat cname i w of
        None \<Rightarrow> None
      | Some (Ok _, _) \<Rightarrow> Some (update_one i (\<lambda>t. t\<lparr>status := ''completed''\<rparr>) (tasks w))
      | Some (Raise m, _) \<Rightarrow>
          Some (update_one i (\<lambda>t. t\<lparr>status := ''failed'', error := Some m\<rparr>) (tasks w)))"
  by (auto simp: scrape_and_store_def scrape_body_def Let_def set_failed_def set_completed_def
      tasks_log_event tasks_append_csv tasks_insert_product
      split: outcome.splits option.splits)

lemma first_group_thumbs:
  "first_group (drv\<lparr>find_thumbnails := th\<rparr>) keep sels = first_group drv keep sels"
  by (induction sels) (auto split: outcome.splits)

lemma extract_product_thumbs:
  "extract_product (drv\<lparr>find_thumbnails := th\<rparr>) url cat cname i now =
     (case extract_product drv url cat cname i now of
        Raise m \<Rightarrow> Raise m
      | Ok p \<Rightarrow> Ok (p\<lparr>images := extract_images (drv\<lparr>find_thumbnails := th\<rparr>)\<rparr>))"
proof -
  have st: "selector_text (drv\<lparr>find_thumbnails := th\<rparr>) s = selector_text drv s" for s
    by (simp add: selector_text_def)
  have "safe_find_text_by_css (drv\<lparr>find_thumbnails := th\<rparr>) sels = safe_find_text_by_css drv sels"
    for sels by (induction sels) (simp_all add: st split: option.splits)
  moreover have "price_from (drv\<lparr>find_thumbnails := th\<rparr>) sels = price_from drv sels"
    for sels by (induction sels) (simp_all add: st split: option.splits)
  ultimately show ?thesis
    by (simp add: extract_product_def Let_def extract_price_def extract_colors_def
        extract_sizes_def first_group_thumbs extract_about_def extract_related_links_def
        scroll_to_element_def split: outcome.splits)
qed

lemma status_ignores_thumbnails:
  assumes "chrome r = Ok drv"
  shows "map_option tasks
           (scrape_and_store (r\<lparr>chrome := Ok (drv\<lparr>find_thumbnails := th\<rparr>)\<rparr>) url cat cname i w) =
         map_option tasks (scrape_and_store r url cat cname i w)"
  using assms
  by (auto simp: tasks_after_run scrape_body_def Let_def extract_product_thumbs captcha_prompt_def
      split: outcome.splits option.splits)

lemma first_group_quit:
  "first_group (drv\<lparr>quit := q\<rparr>) keep sels = first_group drv keep sels"
  by (induction sels) (auto split: outcome.splits)

lemma extract_product_quit:
  "extract_product (drv\<lparr>quit := q\<rparr>) url cat cname i now = extract_product drv url cat cname i now"
proof -
  have st: "selector_text (drv\<lparr>quit := q\<rparr>) s = selector_text drv s" for s
    by (simp add: selector_text_def)
  have "safe_find_text_by_css (drv\<lparr>quit := q\<rparr>) sels = safe_find_text_by_css drv sels"
    for sels by (induction sels) (simp_all add: st split: option.splits)
  moreover have "price_from (drv\<lparr>quit := q\<rparr>) sels = price_from drv sels"
    for sels by (induction sels) (simp_all add: st split: option.splits)
  ultimately show ?thesis
    by (simp add: extract_product_def Let_def extract_price_def extract_colors_def
        extract_sizes_def first_group_quit extract_about_def extract_related_links_def
        extract_images_def scroll_to_element_def split: outcome.splits)
qed

lemma extract_product_task_id:
  "extract_product drv url cat cname i now = Ok p \<Longrightarrow> task_id p = i"
  by (auto simp: extract_product_def Let_def split: outcome.splits)

lemma completed_run_inserts_one_product:
  assumes "scrape_body r url cat cname i w = Some (Ok u, w')"
  shows "\<exists>p. products w' = products w @ [p] \<and> task_id p = i"
proof -
  from assms obtain drv p where p: "extract_product drv url cat cname i (clock r) = Ok p"
    and w': "w' = set_completed i (stored r p w)"
    by (auto simp: scrape_body_def Let_def stored_def split: outcome.splits option.splits)
  have "products w' = products w @ [p]"
    by (simp add: w' products_set_completed stored_products)
  with p show ?thesis using extract_product_task_id by blast
qed

lemma early_failure_inserts_nothing:
  assumes "scrape_body r url cat cname i w = Some (Raise m, w')"
    and "\<forall>drv. chrome r = Ok drv \<longrightarrow> quit drv = Ok ()"
  shows "products w' = products w"
  using assms
  by (auto simp: scrape_body_def Let_def log_event_def split: outcome.splits option.splits)

lemma completed_run_quits_first:
  assumes "scrape_body r url cat cname i w = Some (Ok u, w')"
  shows "\<exists>es. journal w' = journal w @ es @ [Session_quit, Status_written i ''completed'']
           \<and> status_history i es = []"
proof -
  from assms obtain p where w': "w' = set_completed i (stored r p w)"
    by (auto simp: scrape_body_def Let_def stored_def split: outcome.splits option.splits)
  obtain es where es: "journal (append_csv (to_csv r) p (insert_product p (log_event Session_started w)))
      = journal (insert_product p (log_event Session_started w)) @ es" "status_history i es = []"
    using journal_append_csv by blast
  then have "journal w' = journal w @ (Session_started # Product_inserted (task_id p) # es)
      @ [Session_quit, Status_written i ''completed'']"
    by (simp add: w' set_completed_def stored_def log_event_def insert_product_def)
  moreover have "status_history i (Session_started # Product_inserted (task_id p) # es) = []"
    using es(2) by simp
  ultimately show ?thesis by blast
qed

section \<open>The runs of the kettle page\<close>

lemmas page_defs = kettle_page_def kettle_anchors_def kettle_thumbs_def text_element_def attr_element_def shows_image_def
  stuck_thumbnail_def

lemma kettle_title: "safe_find_text_by_css kettle_page title_selectors = ''Blue Kettle''"
  by (simp add: title_selectors_def selector_text_def page_defs strip_def is_space_def)

lemma kettle_price: "extract_price kettle_page = Number (Finite (2469 / 2))"
  by (simp add: extract_price_def price_selectors_def selector_text_def page_defs strip_def
      is_space_def price_text_examples)

lemma kettle_colors: "extract_colors kettle_page = Ok {''N/A''}"
  by (simp add: extract_colors_def color_selectors_def color_image_selector_def or_na_def page_defs)

lemma kettle_sizes: "extract_sizes kettle_page = Ok {''N/A''}"
  by (simp add: extract_sizes_def size_selectors_def or_na_def page_defs)

lemma kettle_images: "extract_images kettle_page =
   [''https://i5.walmartimages.com/a.jpg'', ''https://i5.walmartimages.com/b.jpg'']"
  by (simp add: extract_images_def read_thumbnail_def page_defs)

lemma kettle_about: "extract_about kettle_page = []"
  by (simp add: extract_about_def about_selector_def page_defs)

lemma kettle_links: "extract_related_links kettle_page = {''https://www.walmart.com/ip/123''}"
  by (simp add: extract_related_links_def link_selector_def before_query_def page_defs)

lemma kettle_extract:
  "extract_product kettle_page kettle_url ''kitchen'' ''acme'' 0 20 = Ok kettle_product"
  by (simp add: extract_product_def kettle_title kettle_price kettle_colors kettle_sizes
      kettle_images kettle_about kettle_links kettle_product_def)

lemma kettle_product_task: "task_id kettle_product = 0"
  by (simp add: kettle_product_def)

lemma kettle_captcha: "captcha_prompt r kettle_source = Some (Ok ())"
  by (simp add: kettle_source_def captcha_prompt_def lower_def lower_char_def)

lemma kettle_session:
  "get kettle_page u = Ok ()" "quit kettle_page = Ok ()"
  "page_source kettle_page = Ok kettle_source"
  by (simp_all add: kettle_page_def)


lemma kettle_thumbnails:
  "find_thumbnails kettle_page = Ok kettle_thumbs"
  "take 5 kettle_thumbs = [shows_image ''https://i5.walmartimages.com/a.jpg''] @ stuck_thumbnail
      # [shows_image ''https://i5.walmartimages.com/a.jpg'',
         shows_image ''https://i5.walmartimages.com/b.jpg'']"
  "read_thumbnail stuck_thumbnail = Raise ''element click intercepted''"
  by (simp_all add: kettle_page_def kettle_thumbs_def read_thumbnail_def stuck_thumbnail_def)

lemma kettle_urls_read:
  "urls_read (take 5 kettle_thumbs) =
     [''https://i5.walmartimages.com/a.jpg'', ''https://i5.walmartimages.com/a.jpg'',
      ''https://i5.walmartimages.com/b.jpg'']"
  by (simp add: urls_read_def kettle_thumbs_def read_thumbnail_def shows_image_def
      stuck_thumbnail_def attr_element_def)

lemma contact_extract:
  "extract_colors contact_page = Ok {''N/A''}"
  "extract_sizes contact_page = Ok {''N/A''}"
  "extract_price contact_page = Text ''Contact for price''"
  by (simp_all add: contact_page_def extract_colors_def color_selectors_def
      color_image_selector_def extract_sizes_def size_selectors_def or_na_def page_defs
      extract_price_def price_selectors_def selector_text_def strip_def is_space_def
      price_text_examples)

lemma contact_session:
  "get contact_page u = Ok ()" "quit contact_page = Ok ()"
  "page_source contact_page = Ok kettle_source"
  by (simp_all add: contact_page_def kettle_page_def)

lemma submitted_world_eq:
  "submitted_world = \<lparr>tasks = [\<lparr>t_id = 0, t_client_name = ''acme'', t_category = ''kitchen'',
       t_url = kettle_url, status = ''pending'', created_at = 10, error = None\<rparr>],
     products = [], csv = None, journal = [Status_written 0 ''pending'']\<rparr>"
  by (simp add: submitted_world_def submit_task_def empty_world_def fresh_id_def log_event_def)

lemma submitted_task:
  "task_of 0 submitted_world = Some \<lparr>t_id = 0, t_client_name = ''acme'', t_category = ''kitchen'',
       t_url = kettle_url, status = ''pending'', created_at = 10, error = None\<rparr>"
  by (simp add: submitted_world_eq task_of_def)

lemma submit_kettle:
  "submit_task ''acme'' ''kitchen'' kettle_url 10 empty_world = (0, submitted_world)"
  by (simp add: submitted_world_def submit_task_def empty_world_def fresh_id_def Let_def)

lemma two_tasks_eq:
  "tasks two_tasks =
    [\<lparr>t_id = 0, t_client_name = [], t_category = ''toys'', t_url = kettle_url,
       status = ''pending'', created_at = 10, error = None\<rparr>,
     \<lparr>t_id = 1, t_client_name = ''acme'', t_category = ''kitchen'', t_url = kettle_url,
       status = ''pending'', created_at = 11, error = None\<rparr>]"
  by (simp add: two_tasks_def submit_task_def empty_world_def fresh_id_def log_event_def)

lemma kettle_completes:
  "scrape_and_store kettle_run kettle_url ''kitchen'' ''acme'' 0 submitted_world =
   Some \<lparr>tasks = [\<lparr>t_id = 0, t_client_name = ''acme'', t_category = ''kitchen'',
       t_url = kettle_url, status = ''completed'', created_at = 10, error = None\<rparr>],
     products = [kettle_product], csv = Some [Header, Row kettle_product],
     journal = [Status_written 0 ''pending'', Session_started, Product_inserted 0, Csv_appended,
       Session_quit, Status_written 0 ''completed'']\<rparr>"
  by (simp add: scrape_and_store_def scrape_body_def kettle_run_def kettle_captcha kettle_extract kettle_session
      submitted_world_eq Let_def log_event_def insert_product_def append_csv_def set_completed_def kettle_product_task)

lemma kettle_lifecycle:
  "lifecycle kettle_run ''acme'' ''kitchen'' kettle_url 10 empty_world
     = Some [''pending'', ''completed'']"
  apply (simp only: lifecycle_def submit_kettle kettle_completes prod.case option.case)
  apply (simp add: empty_world_def)
  done

lemma unreachable_body:
  "scrape_body unreachable_run kettle_url ''kitchen'' ''acme'' 0 submitted_world =
     Some (Raise ''net::ERR_NAME_NOT_RESOLVED'', log_event Session_started submitted_world)"
  by (simp add: scrape_body_def unreachable_run_def kettle_run_def Let_def)

lemma unreachable_returns: "\<not> prompt_never_answered unreachable_run kettle_url"
  by (simp add: prompt_never_answered_def unreachable_run_def kettle_run_def)

lemma unreachable_store:
  "scrape_and_store unreachable_run kettle_url ''kitchen'' ''acme'' 0 submitted_world =
     Some (set_failed 0 ''net::ERR_NAME_NOT_RESOLVED'' (log_event Session_started submitted_world))"
  by (simp add: scrape_and_store_cases unreachable_body)

lemma unreachable_lifecycle:
  "lifecycle unreachable_run ''acme'' ''kitchen'' kettle_url 10 empty_world
     = Some [''pending'', ''failed'']"
  apply (simp only: lifecycle_def submit_kettle unreachable_store prod.case option.case)
  apply (simp add: empty_world_def set_failed_def log_event_def submitted_world_eq)
  done

lemma quit_fails_body:
  "scrape_body quit_fails_run kettle_url ''kitchen'' ''acme'' 0 submitted_world =
     Some (Raise ''chrome not reachable'',
       append_csv (Ok ()) kettle_product
         (insert_product kettle_product (log_event Session_started submitted_world)))"
  by (simp add: scrape_body_def quit_fails_run_def kettle_run_def Let_def kettle_session
      kettle_captcha extract_product_quit kettle_extract)

lemma quit_fails_store:
  "scrape_and_store quit_fails_run kettle_url ''kitchen'' ''acme'' 0 submitted_world =
     Some (set_failed 0 ''chrome not reachable''
       (append_csv (Ok ()) kettle_product
         (insert_product kettle_product (log_event Session_started submitted_world))))"
  by (simp add: scrape_and_store_cases quit_fails_body)

section \<open>The claims\<close>

text \<open>
  C1. A worker that returns leaves its task either completed or failed. For a task that is
  in the store, and a run in which the CAPTCHA prompt does not wait for ever, the worker
  returns; the task then has the status completed or failed; when an exception with text
  \<open>m\<close> leaves the \<^verbatim>\<open>try\<close> block, the task is failed and its error field holds \<open>m\<close>; when
  the block runs to its end, the task is completed.
\<close>

theorem worker_leaves_terminal_status:
  assumes "task_of i w = Some t0" and "\<not> prompt_never_answered r url"
  shows "\<exists>w' t. scrape_and_store r url cat cname i w = Some w' \<and> task_of i w' = Some t
           \<and> (status t = ''completed'' \<or> status t = ''failed'')
           \<and> (\<forall>m w1. scrape_body r url cat cname i w = Some (Raise m, w1) \<longrightarrow>
                 t = t0\<lparr>status := ''failed'', error := Some m\<rparr>)
           \<and> (\<forall>w1. scrape_body r url cat cname i w = Some (Ok (), w1) \<longrightarrow>
                 t = t0\<lparr>status := ''completed''\<rparr>)"
proof -
  from assms(2) obtain res w1 where b: "scrape_body r url cat cname i w = Some (res, w1)"
    using scrape_body_None [of r url cat cname i w] by (cases "scrape_body r url cat cname i w") auto
  show ?thesis
  proof (cases res)
    case (Ok u)
    with b have "task_of i w1 = Some (t0\<lparr>status := ''completed''\<rparr>)"
      using scrape_body_Ok_task [of r url cat cname i w u w1] assms(1) by simp
    with b Ok show ?thesis by (simp add: scrape_and_store_cases)
  next
    case (Raise m)
    with b have "tasks w1 = tasks w" using scrape_body_Raise_tasks by blast
    then have "task_of i w1 = Some t0"
      using assms(1) task_of_cong [of w1 w i] by simp
    then have "task_of i (set_failed i m w1) = Some (t0\<lparr>status := ''failed'', error := Some m\<rparr>)"
      by (simp add: task_of_set_failed)
    with b Raise show ?thesis by (simp add: scrape_and_store_cases)
  qed
qed

theorem worker_leaves_terminal_status_witness:
  "task_of 0 submitted_world = Some \<lparr>t_id = 0, t_client_name = ''acme'', t_category = ''kitchen'',
       t_url = kettle_url, status = ''pending'', created_at = 10, error = None\<rparr>
   \<and> \<not> prompt_never_answered unreachable_run kettle_url
   \<and> (\<exists>w'. scrape_and_store unreachable_run kettle_url ''kitchen'' ''acme'' 0 submitted_world = Some w'
        \<and> task_of 0 w' = Some \<lparr>t_id = 0, t_client_name = ''acme'', t_category = ''kitchen'',
             t_url = kettle_url, status = ''failed'', created_at = 10,
             error = Some ''net::ERR_NAME_NOT_RESOLVED''\<rparr>)"
  using worker_leaves_terminal_status [OF submitted_task unreachable_returns,
      of "''kitchen''" "''acme''"] unreachable_body submitted_task unreachable_returns
  by auto



text \<open>
  C3. The price chain tries its selectors in order and takes the first non-empty text: the
  text without dollar signs and commas, stripped, is parsed as a float; when that fails the
  text itself is the price; when no selector yields, the price is 0.0. The text
  \<^verbatim>\<open>$1,234.50\<close> gives the number 1234.5 and \<^verbatim>\<open>Contact for price\<close> stays as it is. The price
  step never fails the task: in a run whose session steps, colours and sizes succeed, the
  task is completed and the stored product has the extracted price.
\<close>

theorem price_parsed_or_kept:
  "((\<forall>s \<in> set pre. selector_text drv s = None) \<and> selector_text drv sel = Some t \<longrightarrow>
      price_from drv (pre @ sel # post) = price_of_text t)
   \<and> ((\<forall>s \<in> set price_selectors. selector_text drv s = None) \<longrightarrow>
      extract_price drv = Number (Finite 0))
   \<and> (py_float (strip (remove_char CHR '','' (remove_char CHR ''$'' t))) = Some v \<longrightarrow>
      price_of_text t = Number v)
   \<and> (py_float (strip (remove_char CHR '','' (remove_char CHR ''$'' t))) = None \<longrightarrow>
      price_of_text t = Text t)
   \<and> price_of_text ''$1,234.50'' = Number (Finite (2469 / 2))
   \<and> price_of_text ''Contact for price'' = Text ''Contact for price''
   \<and> (chrome r = Ok drv \<and> get drv url = Ok () \<and> page_source drv = Ok src
        \<and> captcha_prompt r src = Some (Ok ()) \<and> extract_colors drv = Ok cs
        \<and> extract_sizes drv = Ok ss \<and> quit drv = Ok () \<and> task_of i w = Some t0 \<longrightarrow>
        (\<exists>w' p. scrape_and_store r url cat cname i w = Some w'
           \<and> task_of i w' = Some (t0\<lparr>status := ''completed''\<rparr>)
           \<and> products w' = products w @ [p] \<and> price p = extract_price drv))"
proof (intro conjI impI)
  assume "(\<forall>s \<in> set pre. selector_text drv s = None) \<and> selector_text drv sel = Some t"
  then show "price_from drv (pre @ sel # post) = price_of_text t"
    by (simp add: price_from_skip)
next
  assume "\<forall>s \<in> set price_selectors. selector_text drv s = None"
  then show "extract_price drv = Number (Finite 0)"
    using price_from_skip [of price_selectors drv "[]"] by (simp add: extract_price_def)
next
  assume "py_float (strip (remove_char CHR '','' (remove_char CHR ''$'' t))) = Some v"
  then show "price_of_text t = Number v" by (simp add: price_of_text_def)
next
  assume "py_float (strip (remove_char CHR '','' (remove_char CHR ''$'' t))) = None"
  then show "price_of_text t = Text t" by (simp add: price_of_text_def)
next
  show "price_of_text ''$1,234.50'' = Number (Finite (2469 / 2))"
    by (rule price_text_examples)
next
  show "price_of_text ''Contact for price'' = Text ''Contact for price''"
    by (rule price_text_examples)
next
  assume a: "chrome r = Ok drv \<and> get drv url = Ok () \<and> page_source drv = Ok src
        \<and> captcha_prompt r src = Some (Ok ()) \<and> extract_colors drv = Ok cs
        \<and> extract_sizes drv = Ok ss \<and> quit drv = Ok () \<and> task_of i w = Some t0"
  then obtain p where p: "extract_product drv url cat cname i (clock r) = Ok p"
    using extract_product_Ok by blast
  with a have s: "scrape_and_store r url cat cname i w = Some (set_completed i (stored r p w))"
    by (simp add: scrape_and_store_completes)
  have "task_of i (set_completed i (stored r p w)) = Some (t0\<lparr>status := ''completed''\<rparr>)"
    using a by (simp add: task_of_set_completed task_of_cong [OF stored_tasks])
  moreover have "products (set_completed i (stored r p w)) = products w @ [p]"
    by (simp add: products_set_completed stored_products)
  ultimately show "\<exists>w' p. scrape_and_store r url cat cname i w = Some w'
           \<and> task_of i w' = Some (t0\<lparr>status := ''completed''\<rparr>)
           \<and> products w' = products w @ [p] \<and> price p = extract_price drv"
    using s p extract_product_price by blast
qed

theorem price_parsed_or_kept_witness:
  "chrome contact_run = Ok contact_page \<and> get contact_page kettle_url = Ok ()
   \<and> page_source contact_page = Ok kettle_source
   \<and> captcha_prompt contact_run kettle_source = Some (Ok ())
   \<and> extract_colors contact_page = Ok {''N/A''} \<and> extract_sizes contact_page = Ok {''N/A''}
   \<and> quit contact_page = Ok ()
   \<and> task_of 0 submitted_world \<noteq> None
   \<and> extract_price contact_page = Text ''Contact for price''
   \<and> (\<exists>w' p t. scrape_and_store contact_run kettle_url ''kitchen'' ''acme'' 0 submitted_world = Some w'
         \<and> task_of 0 w' = Some t \<and> status t = ''completed''
         \<and> products w' = products submitted_world @ [p]
         \<and> price p = Text ''Contact for price'')"
proof -
  have c: "chrome contact_run = Ok contact_page"
    by (simp add: contact_run_def kettle_run_def)
  from price_parsed_or_kept [where r = contact_run and drv = contact_page and url = kettle_url
      and src = kettle_source and cs = "{''N/A''}" and ss = "{''N/A''}" and i = 0
      and w = submitted_world and cat = "''kitchen''" and cname = "''acme''"
      and ?t0.0 = "\<lparr>t_id = 0, t_client_name = ''acme'', t_category = ''kitchen'',
            t_url = kettle_url, status = ''pending'', created_at = 10, error = None\<rparr>"]
    c contact_session contact_extract kettle_captcha submitted_task
  have "\<exists>w' p. scrape_and_store contact_run kettle_url ''kitchen'' ''acme'' 0 submitted_world = Some w'
      \<and> task_of 0 w' = Some (\<lparr>t_id = 0, t_client_name = ''acme'', t_category = ''kitchen'',
            t_url = kettle_url, status = ''pending'', created_at = 10, error = None\<rparr>
            \<lparr>status := ''completed''\<rparr>)
      \<and> products w' = products submitted_world @ [p] \<and> price p = extract_price contact_page"
    by simp
  then show ?thesis
    using c contact_session contact_extract kettle_captcha submitted_task by auto
qed

text \<open>
  C4. At a run in which closing the browser raises, the product of the task is in the
  store and the task is failed: the product is inserted before \<^verbatim>\<open>driver.quit()\<close>, and the
  exception of the latter reaches the handler that writes the status \<^verbatim>\<open>failed\<close>.
\<close>

theorem failed_task_keeps_product:
  "map_option (\<lambda>w'. (map_option status (task_of 0 w'), map task_id (products_of 0 w')))
     (scrape_and_store quit_fails_run kettle_url ''kitchen'' ''acme'' 0 submitted_world)
   = Some (Some ''failed'', [0])"
  apply (simp only: quit_fails_store option.map)
  apply (simp add: task_of_def products_of_def set_failed_def append_csv_def insert_product_def
      log_event_def submitted_world_eq kettle_product_task)
  done

text \<open>
  C5. At the run of the kettle page the statuses written to the task are pending and then
  completed: the status running is not among them, so the run does not follow the state
  machine pending, running, terminal.
\<close>

theorem lifecycle_skips_running:
  "lifecycle kettle_run ''acme'' ''kitchen'' kettle_url 10 empty_world = Some [''pending'', ''completed'']
   \<and> \<not> spec_lifecycle [''pending'', ''completed'']"
  by (simp add: kettle_lifecycle spec_lifecycle_def)

text \<open>
  C5, as amended. Every task goes from pending straight to a terminal status: the
  submission writes pending, and a worker that returns writes the status once more, either
  completed or failed; running is never written. The worker fails to return exactly when
  the CAPTCHA prompt waits for ever.
\<close>

theorem lifecycle_pending_then_terminal:
  "(lifecycle r cname cat url now w = None \<longleftrightarrow> prompt_never_answered r url)
   \<and> (lifecycle r cname cat url now w = Some h \<longrightarrow>
        (h = [''pending'', ''completed''] \<or> h = [''pending'', ''failed'']) \<and> ''running'' \<notin> set h)"
proof -
  define j where "j = fresh_id (tasks w)"
  define w1 where "w1 = log_event (Status_written j ''pending'')
      (w\<lparr>tasks := tasks w @ [\<lparr>t_id = j, t_client_name = cname, t_category = cat, t_url = url,
          status = ''pending'', created_at = now, error = None\<rparr>]\<rparr>)"
  have sub: "submit_task cname cat url now w = (j, w1)"
    by (simp add: submit_task_def Let_def j_def w1_def)
  have jw1: "journal w1 = journal w @ [Status_written j ''pending'']"
    by (simp add: w1_def log_event_def)
  have lc: "lifecycle r cname cat url now w =
      (case scrape_and_store r url cat cname j w1 of
         None \<Rightarrow> None
       | Some w2 \<Rightarrow> Some (status_history j (drop (length (journal w)) (journal w2))))"
    by (simp add: lifecycle_def sub)
  have a: "lifecycle r cname cat url now w = None \<longleftrightarrow> prompt_never_answered r url"
    using scrape_and_store_None [of r url cat cname j w1]
    by (cases "scrape_and_store r url cat cname j w1") (simp_all add: lc)
  have b: "(h = [''pending'', ''completed''] \<or> h = [''pending'', ''failed'']) \<and> ''running'' \<notin> set h"
    if h: "lifecycle r cname cat url now w = Some h"
  proof -
    from h obtain w2 where w2: "scrape_and_store r url cat cname j w1 = Some w2"
      and hh: "h = status_history j (drop (length (journal w)) (journal w2))"
      by (auto simp: lc split: option.splits)
    from worker_journal [OF w2] obtain es where es: "journal w2 = journal w1 @ es"
      "status_history j es = [''completed''] \<or> status_history j es = [''failed'']"
      by blast
    have "h = ''pending'' # status_history j es"
      using hh es(1) jw1 by simp
    with es(2) show ?thesis by auto
  qed
  from a b show ?thesis by blast
qed

theorem lifecycle_pending_then_terminal_witness:
  "lifecycle unreachable_run ''acme'' ''kitchen'' kettle_url 10 empty_world = Some [''pending'', ''failed'']
   \<and> \<not> prompt_never_answered unreachable_run kettle_url
   \<and> ''running'' \<notin> set [''pending'', ''failed'']"
  using lifecycle_pending_then_terminal [of unreachable_run "''acme''" "''kitchen''" kettle_url 10
      empty_world "[''pending'', ''failed'']"] unreachable_lifecycle
  by simp

text \<open>
  C6. At a run in which the navigation raises, the status failed is written while the
  browser session started by the worker is still open: the journal holds the start of the
  session, no quit, and then the write. Only the path to the status completed calls
  \<^verbatim>\<open>driver.quit()\<close>.
\<close>

theorem failed_write_with_session_open:
  "map_option (\<lambda>w'. (journal w', terminal_write_while_open False (journal w')))
     (scrape_and_store unreachable_run kettle_url ''kitchen'' ''acme'' 0 submitted_world)
   = Some ([Status_written 0 ''pending'', Session_started, Status_written 0 ''failed''], True)"
  apply (simp only: unreachable_store option.map)
  apply (simp add: set_failed_def log_event_def submitted_world_eq)
  done

text \<open>
  C7. The image list has no URL twice and at most five entries; it is made from the first
  five thumbnails only, each clicked and read in turn, and holds the URLs read in the order
  of their first occurrence. When the thumbnails cannot be listed, it is empty.
\<close>

theorem images_capped_and_distinct:
  "distinct (extract_images drv) \<and> length (extract_images drv) \<le> 5
   \<and> (find_thumbnails drv = Ok thumbs \<longrightarrow>
        extract_images drv = rev (remdups (rev (urls_read (take 5 thumbs)))))
   \<and> ((\<exists>m. find_thumbnails drv = Raise m) \<longrightarrow> extract_images drv = [])"
proof (cases "find_thumbnails drv")
  case (Ok ts)
  have e: "extract_images drv = rev (remdups (rev (urls_read (take 5 ts))))"
    using Ok collect_images_eq [of "[]" "take 5 ts"] by (simp add: extract_images_def)
  have "length (rev (remdups (rev (urls_read (take 5 ts))))) \<le> length (take 5 ts)"
    using length_first_occurrences urls_read_length le_trans by blast
  then have "length (extract_images drv) \<le> 5" using e by simp
  with e Ok show ?thesis by simp
next
  case (Raise m)
  then show ?thesis by (simp add: extract_images_def)
qed

theorem images_capped_and_distinct_witness:
  "find_thumbnails kettle_page = Ok kettle_thumbs
   \<and> urls_read (take 5 kettle_thumbs) =
       [''https://i5.walmartimages.com/a.jpg'', ''https://i5.walmartimages.com/a.jpg'',
        ''https://i5.walmartimages.com/b.jpg'']
   \<and> extract_images kettle_page =
       [''https://i5.walmartimages.com/a.jpg'', ''https://i5.walmartimages.com/b.jpg'']
   \<and> distinct (extract_images kettle_page) \<and> length (extract_images kettle_page) \<le> 5"
proof -
  from images_capped_and_distinct [where drv = kettle_page and thumbs = kettle_thumbs]
    kettle_thumbnails(1)
  have "extract_images kettle_page = rev (remdups (rev (urls_read (take 5 kettle_thumbs))))"
    by blast
  then show ?thesis
    using kettle_thumbnails(1) by (simp add: kettle_urls_read)
qed

text \<open>
  C8. The related links are the set of the \<^verbatim>\<open>href\<close> values of the anchors found by the
  product-detail selector, empty and missing values left out, each cut at its first
  question mark; as a set it has no duplicates and no order. Two links that differ after
  the question mark only are one entry.
\<close>

theorem related_links_deduplicated:
  "(find_elements drv link_selector = Ok links
      \<and> (\<forall>a \<in> set links. \<exists>h. get_attribute a ''href'' = Ok h) \<longrightarrow>
      extract_related_links drv =
        before_query ` {h. h \<noteq> [] \<and> (\<exists>a \<in> set links. get_attribute a ''href'' = Ok (Some h))})
   \<and> (CHR ''?'' \<notin> set u \<longrightarrow> before_query (u @ CHR ''?'' # q) = u \<and> before_query u = u)
   \<and> (CHR ''?'' \<notin> set u \<longrightarrow>
        before_query (u @ CHR ''?'' # q1) = before_query (u @ CHR ''?'' # q2))"
  by (simp add: extract_related_links_def link_targets_eq before_query_cut)

theorem related_links_deduplicated_witness:
  "find_elements kettle_page link_selector = Ok kettle_anchors
   \<and> map (\<lambda>a. get_attribute a ''href'') kettle_anchors =
       [Ok (Some ''https://www.walmart.com/ip/123?tid=5''),
        Ok (Some ''https://www.walmart.com/ip/123?tid=9'')]
   \<and> extract_related_links kettle_page =
       before_query ` {h. h \<noteq> [] \<and> (\<exists>a \<in> set kettle_anchors. get_attribute a ''href'' = Ok (Some h))}
   \<and> extract_related_links kettle_page = {''https://www.walmart.com/ip/123''}
   \<and> CHR ''?'' \<notin> set ''https://www.walmart.com/ip/123''
   \<and> before_query ''https://www.walmart.com/ip/123?tid=5''
       = before_query ''https://www.walmart.com/ip/123?tid=9''"
proof -
  have f: "find_elements kettle_page link_selector = Ok kettle_anchors"
    by (simp add: kettle_page_def link_selector_def)
  have r: "\<forall>a \<in> set kettle_anchors. \<exists>h. get_attribute a ''href'' = Ok h"
    by (simp add: kettle_anchors_def attr_element_def)
  have q: "CHR ''?'' \<notin> set ''https://www.walmart.com/ip/123''"
    by simp
  note t = related_links_deduplicated [of kettle_page kettle_anchors
      "''https://www.walmart.com/ip/123''" "''tid=5''" "''tid=5''" "''tid=9''"]
  from t f r have "extract_related_links kettle_page =
       before_query ` {h. h \<noteq> [] \<and> (\<exists>a \<in> set kettle_anchors. get_attribute a ''href'' = Ok (Some h))}"
    by blast
  moreover from t q
  have "before_query (''https://www.walmart.com/ip/123'' @ CHR ''?'' # ''tid=5'')
      = before_query (''https://www.walmart.com/ip/123'' @ CHR ''?'' # ''tid=9'')"
    by blast
  then have "before_query ''https://www.walmart.com/ip/123?tid=5''
       = before_query ''https://www.walmart.com/ip/123?tid=9''"
    by simp
  moreover have "map (\<lambda>a. get_attribute a ''href'') kettle_anchors =
       [Ok (Some ''https://www.walmart.com/ip/123?tid=5''),
        Ok (Some ''https://www.walmart.com/ip/123?tid=9'')]"
    by (simp add: kettle_anchors_def attr_element_def)
  ultimately show ?thesis
    using f q kettle_links by simp
qed

text \<open>
  C9. In both listings a text filter given as the empty string adds no condition, so the
  result is the one of the listing without that filter.
\<close>

theorem empty_filter_is_no_filter:
  "list_tasks (Some []) st cat w = list_tasks None st cat w
   \<and> list_tasks cname (Some []) cat w = list_tasks cname None cat w
   \<and> list_tasks cname st (Some []) w = list_tasks cname st None w
   \<and> list_products (Some []) cat lo hi w = list_products None cat lo hi w
   \<and> list_products cname (Some []) lo hi w = list_products cname None lo hi w"
  by (simp add: list_tasks_def list_products_def text_condition_def)

theorem empty_filter_is_no_filter_witness:
  "list_tasks (Some []) None None two_tasks = list_tasks None None None two_tasks
   \<and> map t_id (list_tasks (Some []) None None two_tasks) = [1, 0]
   \<and> map t_id (list_tasks (Some ''acme'') None None two_tasks) = [1]"
  using empty_filter_is_no_filter [of None None two_tasks]
  by (simp add: list_tasks_def text_condition_def find_tasks_def two_tasks_eq task_field_def)

text \<open>
  C10. A thumbnail whose click or read raises is skipped and nothing else: the loop gives
  what it gives without that thumbnail, so the images field of the product holds the URLs
  read from the others among the first five, in the order of their first occurrence. The
  tasks after a run do not depend on what the thumbnails do, so such an error does not
  fail the task: in a run whose session steps, colours and sizes succeed, the task is
  completed and the product stored for it has those images.
\<close>

theorem thumbnail_failure_skips_one:
  "(read_thumbnail bad = Raise m \<longrightarrow>
      collect_images (pre @ bad # post) urls = collect_images (pre @ post) urls)
   \<and> (click t = Raise m \<longrightarrow> read_thumbnail t = Raise m)
   \<and> (click t = Ok u \<and> main_img t = Raise m \<longrightarrow> read_thumbnail t = Raise m)
   \<and> (click t = Ok u \<and> main_img t = Ok img \<and> get_attribute img ''src'' = Raise m \<longrightarrow>
        read_thumbnail t = Raise m)
   \<and> (find_thumbnails drv = Ok thumbs \<and> take 5 thumbs = pre @ bad # post
        \<and> read_thumbnail bad = Raise m \<longrightarrow>
        extract_images drv = collect_images (pre @ post) [])
   \<and> (chrome r = Ok drv \<longrightarrow>
        map_option tasks
          (scrape_and_store (r\<lparr>chrome := Ok (drv\<lparr>find_thumbnails := th\<rparr>)\<rparr>) url cat cname i w)
        = map_option tasks (scrape_and_store r url cat cname i w))
   \<and> (find_thumbnails drv = Ok thumbs \<and> take 5 thumbs = pre @ bad # post
        \<and> read_thumbnail bad = Raise m
        \<and> extract_product drv url cat cname i now = Ok p \<longrightarrow>
        images p = collect_images (pre @ post) []
        \<and> images p = rev (remdups (rev (urls_read (pre @ post)))))
   \<and> (find_thumbnails drv = Ok thumbs \<and> take 5 thumbs = pre @ bad # post
        \<and> read_thumbnail bad = Raise m
        \<and> chrome r = Ok drv \<and> get drv url = Ok () \<and> page_source drv = Ok src
        \<and> captcha_prompt r src = Some (Ok ()) \<and> extract_colors drv = Ok cs
        \<and> extract_sizes drv = Ok ss \<and> quit drv = Ok () \<and> task_of i w = Some t0 \<longrightarrow>
        (\<exists>w' q. scrape_and_store r url cat cname i w = Some w'
           \<and> task_of i w' = Some (t0\<lparr>status := ''completed''\<rparr>)
           \<and> products w' = products w @ [q]
           \<and> images q = rev (remdups (rev (urls_read (pre @ post))))))"
proof (intro conjI impI)
  assume "read_thumbnail bad = Raise m"
  then show "collect_images (pre @ bad # post) urls = collect_images (pre @ post) urls"
    by (rule collect_images_skip)
next
  assume "click t = Raise m"
  then show "read_thumbnail t = Raise m" by (rule read_thumbnail_raises)
next
  assume "click t = Ok u \<and> main_img t = Raise m"
  then show "read_thumbnail t = Raise m" by (simp add: read_thumbnail_raises)
next
  assume "click t = Ok u \<and> main_img t = Ok img \<and> get_attribute img ''src'' = Raise m"
  then show "read_thumbnail t = Raise m" by (simp add: read_thumbnail_raises)
next
  assume "find_thumbnails drv = Ok thumbs \<and> take 5 thumbs = pre @ bad # post
        \<and> read_thumbnail bad = Raise m"
  then show "extract_images drv = collect_images (pre @ post) []"
    by (simp add: extract_images_def collect_images_skip)
next
  assume "chrome r = Ok drv"
  then show "map_option tasks
          (scrape_and_store (r\<lparr>chrome := Ok (drv\<lparr>find_thumbnails := th\<rparr>)\<rparr>) url cat cname i w)
        = map_option tasks (scrape_and_store r url cat cname i w)"
    by (rule status_ignores_thumbnails)
next
  assume a: "find_thumbnails drv = Ok thumbs \<and> take 5 thumbs = pre @ bad # post
        \<and> read_thumbnail bad = Raise m
        \<and> extract_product drv url cat cname i now = Ok p"
  then have "extract_images drv = collect_images (pre @ post) []"
    by (simp add: extract_images_def collect_images_skip)
  with a show "images p = collect_images (pre @ post) []"
    using extract_product_images [of drv url cat cname i now p] by simp
next
  assume a: "find_thumbnails drv = Ok thumbs \<and> take 5 thumbs = pre @ bad # post
        \<and> read_thumbnail bad = Raise m
        \<and> extract_product drv url cat cname i now = Ok p"
  then have "extract_images drv = collect_images (pre @ post) []"
    by (simp add: extract_images_def collect_images_skip)
  with a show "images p = rev (remdups (rev (urls_read (pre @ post))))"
    using collect_images_eq [of "[]" "pre @ post"]
      extract_product_images [of drv url cat cname i now p] by simp
next
  assume a: "find_thumbnails drv = Ok thumbs \<and> take 5 thumbs = pre @ bad # post
        \<and> read_thumbnail bad = Raise m
        \<and> chrome r = Ok drv \<and> get drv url = Ok () \<and> page_source drv = Ok src
        \<and> captcha_prompt r src = Some (Ok ()) \<and> extract_colors drv = Ok cs
        \<and> extract_sizes drv = Ok ss \<and> quit drv = Ok () \<and> task_of i w = Some t0"
  then obtain q where q: "extract_product drv url cat cname i (clock r) = Ok q"
    using extract_product_Ok by blast
  with a have s: "scrape_and_store r url cat cname i w = Some (set_completed i (stored r q w))"
    by (simp add: scrape_and_store_completes)
  have t: "task_of i (set_completed i (stored r q w)) = Some (t0\<lparr>status := ''completed''\<rparr>)"
    using a by (simp add: task_of_set_completed task_of_cong [OF stored_tasks])
  have ps: "products (set_completed i (stored r q w)) = products w @ [q]"
    by (simp add: products_set_completed stored_products)
  from a have "extract_images drv = collect_images (pre @ post) []"
    by (simp add: extract_images_def collect_images_skip)
  with q have "images q = rev (remdups (rev (urls_read (pre @ post))))"
    using collect_images_eq [of "[]" "pre @ post"]
      extract_product_images [of drv url cat cname i "clock r" q] by simp
  with s t ps show "\<exists>w' q. scrape_and_store r url cat cname i w = Some w'
           \<and> task_of i w' = Some (t0\<lparr>status := ''completed''\<rparr>)
           \<and> products w' = products w @ [q]
           \<and> images q = rev (remdups (rev (urls_read (pre @ post))))"
    by blast
qed

theorem thumbnail_failure_skips_one_witness:
  "click stuck_thumbnail = Raise ''element click intercepted''
   \<and> read_thumbnail stuck_thumbnail = Raise ''element click intercepted''
   \<and> find_thumbnails kettle_page = Ok kettle_thumbs
   \<and> take 5 kettle_thumbs = [shows_image ''https://i5.walmartimages.com/a.jpg''] @ stuck_thumbnail
        # [shows_image ''https://i5.walmartimages.com/a.jpg'',
           shows_image ''https://i5.walmartimages.com/b.jpg'']
   \<and> extract_product kettle_page kettle_url ''kitchen'' ''acme'' 0 20 = Ok kettle_product
   \<and> images kettle_product =
       collect_images ([shows_image ''https://i5.walmartimages.com/a.jpg'']
          @ [shows_image ''https://i5.walmartimages.com/a.jpg'',
             shows_image ''https://i5.walmartimages.com/b.jpg'']) []
   \<and> images kettle_product =
       [''https://i5.walmartimages.com/a.jpg'', ''https://i5.walmartimages.com/b.jpg'']
   \<and> map_option (map status \<circ> tasks)
        (scrape_and_store kettle_run kettle_url ''kitchen'' ''acme'' 0 submitted_world)
       = Some [''completed'']
   \<and> map_option (map images \<circ> products)
        (scrape_and_store kettle_run kettle_url ''kitchen'' ''acme'' 0 submitted_world)
       = Some [[''https://i5.walmartimages.com/a.jpg'', ''https://i5.walmartimages.com/b.jpg'']]"
proof -
  have c: "click stuck_thumbnail = Raise ''element click intercepted''"
    by (simp add: stuck_thumbnail_def)
  have i: "images kettle_product =
       [''https://i5.walmartimages.com/a.jpg'', ''https://i5.walmartimages.com/b.jpg'']"
    by (simp add: kettle_product_def)
  from thumbnail_failure_skips_one [where bad = stuck_thumbnail
      and m = "''element click intercepted''"
      and pre = "[shows_image ''https://i5.walmartimages.com/a.jpg'']"
      and post = "[shows_image ''https://i5.walmartimages.com/a.jpg'',
        shows_image ''https://i5.walmartimages.com/b.jpg'']"
      and drv = kettle_page and thumbs = kettle_thumbs and url = kettle_url
      and cat = "''kitchen''" and cname = "''acme''" and i = 0 and now = 20
      and p = kettle_product]
    kettle_thumbnails kettle_extract
  have "images kettle_product =
       collect_images ([shows_image ''https://i5.walmartimages.com/a.jpg'']
          @ [shows_image ''https://i5.walmartimages.com/a.jpg'',
             shows_image ''https://i5.walmartimages.com/b.jpg'']) []"
    by simp
  then show ?thesis
    using c i kettle_thumbnails kettle_extract by (simp add: kettle_completes)
qed

end
